theory Spec2Isabelle
  imports Main
begin

section \<open>The users service: data model\<close>

text \<open>
  A shallow embedding of \<^verbatim>\<open>UsersService\<close> (file
  \<^verbatim>\<open>src/services/users/src/services/service.users.ts\<close>): the five operations
  \<^verbatim>\<open>registerUsers\<close>, \<^verbatim>\<open>loginUsers\<close>, \<^verbatim>\<open>refreshTokenUsers\<close>,
  \<^verbatim>\<open>healthTokenUsers\<close> and \<^verbatim>\<open>revokeTokenUsers\<close>.

  The three Mongoose models the service is constructed with (users, secrets, roles) are the
  state; every operation takes the database and returns it, updated, beside its promise.
  A collection is the list of its documents in insertion order. An ObjectId is a natural
  number, a point in time the number of milliseconds since the epoch.
\<close>

type_synonym objectId = nat
type_synonym time = int

record IRoles =
  role_id :: objectId
  name :: string

record IUsers =
  user_id :: objectId
  email :: string
  password :: string
  active :: bool
  roleId :: objectId
  deletedAt :: "time option"

record ISecrets =
  secret_id :: objectId
  accessToken :: string
  refreshToken :: string
  resourceType :: string
  resourceBy :: objectId
  expiredAt :: time

record db =
  users :: "IUsers list"
  secrets :: "ISecrets list"
  roles :: "IRoles list"

text \<open>
  The request bodies. \<^verbatim>\<open>healthTokenUsers\<close> and \<^verbatim>\<open>revokeTokenUsers\<close> test their
  body against \<^verbatim>\<open>undefined\<close> (through a cast to \<^verbatim>\<open>any\<close>), so their argument is an
  optional body, whose \<^verbatim>\<open>id\<close> may itself be missing at run time.
\<close>

record DTORegister =
  reg_email :: string
  reg_password :: string

record DTOLogin =
  login_email :: string
  login_password :: string

record DTORefreshToken =
  body_accessToken :: string

record DTOHealthToken =
  body_id :: "objectId option"

type_synonym DTORevokeToken = DTOHealthToken

subsection \<open>Responses and exceptions\<close>

datatype resdata =
    LoginRes string string time time string
      \<comment> \<open>accessToken, refreshToken, accessTokenExpired, refreshTokenExpired, role\<close>
  | TokenRes string time string
      \<comment> \<open>accessToken, accessTokenExpired, role\<close>

record APIResponse =
  stat_code :: nat
  stat_message :: string
  data :: "resdata option"

definition OK :: nat where "OK = 200"
definition BAD_REQUEST :: nat where "BAD_REQUEST = 400"
definition FORBIDDEN :: nat where "FORBIDDEN = 403"

text \<open>
  Modelled from the spec: \<^verbatim>\<open>apiResponse\<close> is imported from the package
  \<^verbatim>\<open>@node/pkg\<close>, which is not among the sources; the spec's response envelope is
  \<^verbatim>\<open>{statusCode, message, data?, errors?}\<close>. The service reads the fields
  \<^verbatim>\<open>stat_code\<close> and \<^verbatim>\<open>stat_message\<close> of what it builds, and never passes errors.
\<close>

definition apiResponse :: "nat \<Rightarrow> string \<Rightarrow> resdata option \<Rightarrow> APIResponse" where
  "apiResponse code msg d = \<lparr>stat_code = code, stat_message = msg, data = d\<rparr>"

text \<open>
  What a \<^verbatim>\<open>try\<close> block can throw: a response built by \<^verbatim>\<open>apiResponse\<close>, or the
  \<^verbatim>\<open>TypeError\<close> of the engine when a property of \<^verbatim>\<open>null\<close> is read.
\<close>

datatype exn = Thrown APIResponse | TypeError string

definition null_property :: "string \<Rightarrow> exn" where
  "null_property p = TypeError (''Cannot read properties of null (reading '' @ [CHR 0x27] @ p @ [CHR 0x27] @ '')'')"

text \<open>
  The handler of every operation:
  \<^verbatim>\<open>Promise.reject(apiResponse(e.stat_code || status.BAD_REQUEST, e.stat_message || e.message))\<close>.
  A zero code and an empty message are falsy; a thrown response has no \<^verbatim>\<open>message\<close>.
\<close>

definition catch_reject :: "exn \<Rightarrow> APIResponse" where
  "catch_reject e =
     (case e of
        Thrown r \<Rightarrow>
          apiResponse (if stat_code r \<noteq> 0 then stat_code r else BAD_REQUEST)
                      (if stat_message r \<noteq> [] then stat_message r else []) None
      | TypeError m \<Rightarrow> apiResponse BAD_REQUEST m None)"

text \<open>A promise: \<open>Inl\<close> is rejected, \<open>Inr\<close> is resolved.\<close>

type_synonym promise = "APIResponse + APIResponse"

definition try_catch :: "(exn + APIResponse) \<times> db \<Rightarrow> promise \<times> db" where
  "try_catch r =
     (case fst r of
        Inl e \<Rightarrow> (Inl (catch_reject e), snd r)
      | Inr v \<Rightarrow> (Inr v, snd r))"

subsection \<open>The collaborators from the shared package\<close>

record jwt_payload =
  jwt_id :: objectId
  jwt_email :: string
  jwt_role :: string

text \<open>
  \<^verbatim>\<open>Bcrypt\<close> and \<^verbatim>\<open>JsonWebToken\<close> come from \<^verbatim>\<open>@node/pkg\<close> and are not among the
  sources, and neither are the schemas of the models nor the options of the connection. They
  are parameters of every operation:
  \<^item> \<open>hashPassword\<close>, \<open>comparePassword\<close> (the field \<^verbatim>\<open>success\<close> of its result);
  \<^item> \<open>signToken\<close>, which gives the pair spread into the new secret (access token, refresh
    token), and \<open>refreshToken_jwt\<close>, which gives one access token; both see the clock;
  \<^item> \<open>default_active\<close> and \<open>default_roleId\<close>, what the users schema gives a new document;
  \<^item> \<open>ignoreUndefined\<close>, the option of the MongoDB driver: a condition whose value is
    \<^verbatim>\<open>undefined\<close> is dropped from a filter when it is set, and sent as \<^verbatim>\<open>null\<close> when not.
\<close>

record pkg =
  hashPassword :: "string \<Rightarrow> string"
  comparePassword :: "string \<Rightarrow> string \<Rightarrow> bool"
  signToken :: "jwt_payload \<Rightarrow> time \<Rightarrow> string \<times> string"
  refreshToken_jwt :: "jwt_payload \<Rightarrow> time \<Rightarrow> string"
  default_active :: bool
  default_roleId :: objectId
  ignoreUndefined :: bool

datatype time_unit = Days

text \<open>
  Modelled from the spec: \<^verbatim>\<open>expiredAt\<close> and \<^verbatim>\<open>dateFormat\<close> are helpers of
  \<^verbatim>\<open>@node/pkg\<close>, not among the sources. The spec computes
  \<^verbatim>\<open>accessTokenExpiry = now + 1 day\<close> and compares absolute timestamps, so
  \<open>expiredAt_fn n Days\<close> adds \<open>n\<close> days to the clock and \<open>dateFormat\<close> keeps the
  timestamp.
\<close>

definition expiredAt_fn :: "int \<Rightarrow> time_unit \<Rightarrow> time \<Rightarrow> time" where
  "expiredAt_fn n u now = (case u of Days \<Rightarrow> now + n * 86400000)"

definition dateFormat :: "time \<Rightarrow> time" where
  "dateFormat t = t"

subsection \<open>The Mongoose queries the service issues\<close>

text \<open>\<^verbatim>\<open>findOne(filter)\<close> with no sort: the first matching document.\<close>

definition findOne :: "('a \<Rightarrow> bool) \<Rightarrow> 'a list \<Rightarrow> 'a option" where
  "findOne P xs = find P xs"

text \<open>
  \<^verbatim>\<open>findOne(filter).sort({ _id: -1 })\<close>: of the matching secrets, the one with the
  largest \<^verbatim>\<open>_id\<close>.
\<close>

fun newest :: "ISecrets \<Rightarrow> ISecrets list \<Rightarrow> ISecrets" where
  "newest r [] = r"
| "newest r (x # xs) = newest (if secret_id r < secret_id x then x else r) xs"

definition findOne_sort_desc :: "(ISecrets \<Rightarrow> bool) \<Rightarrow> ISecrets list \<Rightarrow> ISecrets option" where
  "findOne_sort_desc P xs =
     (case filter P xs of [] \<Rightarrow> None | y # ys \<Rightarrow> Some (newest y ys))"

text \<open>
  The filter \<^verbatim>\<open>{ resourceBy: body.id }\<close>. Every secret has a \<^verbatim>\<open>resourceBy\<close>, so a
  condition sent as \<^verbatim>\<open>null\<close> selects none, and a dropped condition selects all.
\<close>

definition by_resource :: "pkg \<Rightarrow> objectId option \<Rightarrow> ISecrets \<Rightarrow> bool" where
  "by_resource env i x =
     (case i of Some sid \<Rightarrow> resourceBy x = sid | None \<Rightarrow> ignoreUndefined env)"

text \<open>\<^verbatim>\<open>findByIdAndDelete(id)\<close>: removes the document with that \<^verbatim>\<open>_id\<close> and returns it.\<close>

fun findByIdAndDelete :: "objectId \<Rightarrow> ISecrets list \<Rightarrow> ISecrets option \<times> ISecrets list" where
  "findByIdAndDelete i [] = (None, [])"
| "findByIdAndDelete i (x # xs) =
     (if secret_id x = i then (Some x, xs)
      else (fst (findByIdAndDelete i xs), x # snd (findByIdAndDelete i xs)))"

text \<open>
  \<^verbatim>\<open>findByIdAndUpdate(id, { accessToken, resourceType, resourceBy, expiredAt })\<close>: sets
  the four fields of the document with that \<^verbatim>\<open>_id\<close>.
\<close>

fun findByIdAndUpdate ::
  "objectId \<Rightarrow> string \<Rightarrow> string \<Rightarrow> objectId \<Rightarrow> time \<Rightarrow> ISecrets list \<Rightarrow> ISecrets list" where
  "findByIdAndUpdate i tok ty rby e [] = []"
| "findByIdAndUpdate i tok ty rby e (x # xs) =
     (if secret_id x = i
      then x\<lparr>accessToken := tok, resourceType := ty, resourceBy := rby, expiredAt := e\<rparr> # xs
      else x # findByIdAndUpdate i tok ty rby e xs)"

text \<open>A new document gets an \<^verbatim>\<open>_id\<close> larger than every one in its collection.\<close>

definition new_id :: "objectId list \<Rightarrow> objectId" where
  "new_id ids = Suc (fold max ids 0)"

text \<open>
  Modelled from the spec: the users schema (\<^verbatim>\<open>@models/model.users\<close>) is not among the
  sources; registration creates the Subject with its Credential, not soft-deleted.
  \<^verbatim>\<open>create\<close> gives the new document; the caller's test for \<^verbatim>\<open>null\<close> stays in the model.
\<close>

definition users_create :: "pkg \<Rightarrow> DTORegister \<Rightarrow> IUsers list \<Rightarrow> IUsers option \<times> IUsers list" where
  "users_create env body us =
     (let u = \<lparr>user_id = new_id (map user_id us), email = reg_email body,
                password = reg_password body, active = default_active env,
                roleId = default_roleId env, deletedAt = None\<rparr>
      in (Some u, us @ [u]))"

definition secrets_create ::
  "string \<times> string \<Rightarrow> string \<Rightarrow> objectId \<Rightarrow> time \<Rightarrow> ISecrets list \<Rightarrow> ISecrets list" where
  "secrets_create token ty rby e xs =
     xs @ [\<lparr>secret_id = new_id (map secret_id xs), accessToken = fst token,
             refreshToken = snd token, resourceType = ty, resourceBy = rby, expiredAt = e\<rparr>]"

text \<open>\<^verbatim>\<open>populate({ path: 'roleId', select: '_id name' })\<close>: the role, or \<^verbatim>\<open>null\<close>.\<close>

definition populate :: "IRoles list \<Rightarrow> IUsers \<Rightarrow> IRoles option" where
  "populate rs u = find (\<lambda>r. role_id r = roleId u) rs"

section \<open>The operations\<close>

definition registerUsers :: "pkg \<Rightarrow> DTORegister \<Rightarrow> db \<Rightarrow> promise \<times> db" where
  "registerUsers env body s = try_catch
     (case findOne (\<lambda>u. email u = reg_email body \<and> deletedAt u = None) (users s) of
        Some checkUser \<Rightarrow>
          (Inl (Thrown (apiResponse BAD_REQUEST (''Email '' @ reg_email body @ '' already taken'') None)), s)
      | None \<Rightarrow>
          (let body' = body\<lparr>reg_password := hashPassword env (reg_password body)\<rparr>;
               created = users_create env body' (users s);
               s' = s\<lparr>users := snd created\<rparr>
           in case fst created of
                None \<Rightarrow> (Inl (Thrown (apiResponse FORBIDDEN ''Register new user account failed'' None)), s')
              | Some createUsers \<Rightarrow> (Inr (apiResponse OK ''Register new user account success'' None), s')))"

definition loginUsers :: "pkg \<Rightarrow> DTOLogin \<Rightarrow> time \<Rightarrow> db \<Rightarrow> promise \<times> db" where
  "loginUsers env body now s = try_catch
     (case findOne (\<lambda>u. email u = login_email body \<and> deletedAt u = None) (users s) of
        None \<Rightarrow> (Inl (Thrown (apiResponse BAD_REQUEST ''Email is not registered'' None)), s)
      | Some getUser \<Rightarrow>
          if \<not> active getUser
          then (Inl (Thrown (apiResponse BAD_REQUEST ''User account is not active, please contact admin'' None)), s)
          else if \<not> comparePassword env (login_password body) (password getUser)
          then (Inl (Thrown (apiResponse BAD_REQUEST ''Email or password failed'' None)), s)
          else
            (case populate (roles s) getUser of
               None \<Rightarrow> (Inl (null_property ''name''), s)
             | Some role \<Rightarrow>
                 (let token = signToken env
                        \<lparr>jwt_id = user_id getUser, jwt_email = email getUser, jwt_role = name role\<rparr> now;
                      isAccessTokenExpired = expiredAt_fn 1 Days now;
                      isRefreshTokenExpired = expiredAt_fn 30 Days now;
                      s' = s\<lparr>secrets := secrets_create token ''login'' (user_id getUser)
                                            isAccessTokenExpired (secrets s)\<rparr>;
                      loginRes = LoginRes (fst token) (snd token) isAccessTokenExpired
                                          isRefreshTokenExpired (name role)
                  in (Inr (apiResponse OK ''Login success'' (Some loginRes)), s'))))"

definition refreshTokenUsers :: "pkg \<Rightarrow> DTORefreshToken \<Rightarrow> time \<Rightarrow> db \<Rightarrow> promise \<times> db" where
  "refreshTokenUsers env body now s = try_catch
     (case findOne_sort_desc
             (\<lambda>x. accessToken x = body_accessToken body \<and> resourceType x = ''login'') (secrets s) of
        None \<Rightarrow> (Inl (Thrown (apiResponse BAD_REQUEST ''AccessToken is not exist'' None)), s)
      | Some getAccessToken \<Rightarrow>
          if dateFormat (expiredAt getAccessToken) > dateFormat now
          then (Inl (Thrown (apiResponse BAD_REQUEST ''Your accessToken is not expired'' None)), s)
          else
            (case findOne (\<lambda>u. user_id u = resourceBy getAccessToken \<and> deletedAt u = None) (users s) of
               None \<Rightarrow> (Inl (null_property ''_id''), s)
             | Some getUser \<Rightarrow>
                 (case populate (roles s) getUser of
                    None \<Rightarrow> (Inl (null_property ''name''), s)
                  | Some role \<Rightarrow>
                      (let token = refreshToken_jwt env
                             \<lparr>jwt_id = user_id getUser, jwt_email = email getUser, jwt_role = name role\<rparr> now;
                           isAccessTokenExpired = expiredAt_fn 1 Days now;
                           s' = s\<lparr>secrets := findByIdAndUpdate (secret_id getAccessToken) token ''login''
                                                 (user_id getUser) isAccessTokenExpired (secrets s)\<rparr>;
                           tokenRes = TokenRes token isAccessTokenExpired (name role)
                       in (Inr (apiResponse OK ''Refresh accessToken success'' (Some tokenRes)), s')))))"

definition healthTokenUsers :: "pkg \<Rightarrow> DTOHealthToken option \<Rightarrow> time \<Rightarrow> db \<Rightarrow> promise \<times> db" where
  "healthTokenUsers env body now s = try_catch
     (case body of
        None \<Rightarrow> (Inl (Thrown (apiResponse BAD_REQUEST ''AccessToken expired'' None)), s)
      | Some b \<Rightarrow>
          (case findOne_sort_desc (by_resource env (body_id b)) (secrets s) of
             None \<Rightarrow> (Inl (Thrown (apiResponse BAD_REQUEST ''AccessToken is not exist'' None)), s)
           | Some getAccessToken \<Rightarrow>
               if dateFormat (expiredAt getAccessToken) < dateFormat now
               then (Inl (Thrown (apiResponse BAD_REQUEST ''AccessToken expired'' None)), s)
               else (Inr (apiResponse OK ''AccessToken healthy'' None), s)))"

definition revokeTokenUsers :: "pkg \<Rightarrow> DTORevokeToken option \<Rightarrow> time \<Rightarrow> db \<Rightarrow> promise \<times> db" where
  "revokeTokenUsers env body now s = try_catch
     (case body of
        None \<Rightarrow> (Inl (Thrown (apiResponse BAD_REQUEST ''AccessToken expired'' None)), s)
      | Some b \<Rightarrow>
          (case findOne_sort_desc (by_resource env (body_id b)) (secrets s) of
             None \<Rightarrow> (Inl (Thrown (apiResponse BAD_REQUEST ''AccessToken is not exist'' None)), s)
           | Some getAccessToken \<Rightarrow>
               if dateFormat (expiredAt getAccessToken) < dateFormat now
               then (Inl (Thrown (apiResponse BAD_REQUEST ''AccessToken expired'' None)), s)
               else
                 (let deleted = findByIdAndDelete (secret_id getAccessToken) (secrets s);
                      s' = s\<lparr>secrets := snd deleted\<rparr>
                  in case fst deleted of
                       None \<Rightarrow> (Inl (Thrown (apiResponse BAD_REQUEST ''Revoke accessToken failed'' None)), s')
                     | Some deleteAccessToken \<Rightarrow>
                         (Inr (apiResponse OK ''Revoke accessToken success'' None), s'))))"

section \<open>Well-formed stores and the words of the specification\<close>

text \<open>
  MongoDB keeps \<^verbatim>\<open>_id\<close> unique within a collection. The operations keep it so
  (lemmas \<open>wf_db_loginUsers\<close>, \<open>wf_db_refreshTokenUsers\<close>, \<open>wf_db_revokeTokenUsers\<close>).
\<close>

definition wf_db :: "db \<Rightarrow> bool" where
  "wf_db s = distinct (map secret_id (secrets s))"

text \<open>
  The specification's "most recently inserted Session Record of a subject": a record of the
  subject whose identifier no other record of the subject exceeds.
\<close>

definition latest_for :: "objectId \<Rightarrow> db \<Rightarrow> ISecrets \<Rightarrow> bool" where
  "latest_for sid s r =
     (r \<in> set (secrets s) \<and> resourceBy r = sid \<and>
      (\<forall>x \<in> set (secrets s). resourceBy x = sid \<longrightarrow> secret_id x \<le> secret_id r))"

text \<open>
  The specification's "a Session Record exists for the subject with \<^verbatim>\<open>expiredAt >= now\<close>".
\<close>

definition live_session :: "objectId \<Rightarrow> time \<Rightarrow> db \<Rightarrow> bool" where
  "live_session sid now s = list_ex (\<lambda>r. resourceBy r = sid \<and> now \<le> expiredAt r) (secrets s)"

definition sessions_of :: "objectId \<Rightarrow> db \<Rightarrow> ISecrets list" where
  "sessions_of sid s = filter (\<lambda>x. resourceBy x = sid) (secrets s)"

definition resolved :: "promise \<times> db \<Rightarrow> bool" where
  "resolved r = (case fst r of Inl e \<Rightarrow> False | Inr v \<Rightarrow> True)"

section \<open>A concrete run\<close>

text \<open>
  One instance of the collaborators and the stores of a short run, on which the theorems
  below are exercised: a subject registers, logs in at times 0 and 1, and refreshes the first
  access token once both have expired.
\<close>

definition example_pkg :: pkg where
  "example_pkg =
     \<lparr>hashPassword = (\<lambda>p. ''$2b$'' @ rev p),
      comparePassword = (\<lambda>p h. h = ''$2b$'' @ rev p),
      signToken = (\<lambda>c t. (''access:'' @ jwt_email c @ ''/'' @ replicate (nat t) CHR ''i'',
                            ''refresh:'' @ jwt_email c @ ''/'' @ replicate (nat t) CHR ''i'')),
      refreshToken_jwt = (\<lambda>c t. ''renewed:'' @ jwt_email c),
      default_active = True,
      default_roleId = 1,
      ignoreUndefined = False\<rparr>"

definition alice :: IUsers where
  "alice = \<lparr>user_id = 1, email = ''a@x.com'', password = ''$2b$1wp'', active = True,
            roleId = 1, deletedAt = None\<rparr>"

definition session1 :: ISecrets where
  "session1 = \<lparr>secret_id = 1, accessToken = ''access:a@x.com/'', refreshToken = ''refresh:a@x.com/'',
               resourceType = ''login'', resourceBy = 1, expiredAt = 86400000\<rparr>"

definition session2 :: ISecrets where
  "session2 = \<lparr>secret_id = 2, accessToken = ''access:a@x.com/i'', refreshToken = ''refresh:a@x.com/i'',
               resourceType = ''login'', resourceBy = 1, expiredAt = 86400001\<rparr>"

definition db_empty :: db where
  "db_empty = \<lparr>users = [], secrets = [], roles = [\<lparr>role_id = 1, name = ''user''\<rparr>]\<rparr>"

definition db_registered :: db where
  "db_registered = db_empty\<lparr>users := [alice]\<rparr>"

definition db_login1 :: db where
  "db_login1 = db_registered\<lparr>secrets := [session1]\<rparr>"

definition db_login2 :: db where
  "db_login2 = db_registered\<lparr>secrets := [session1, session2]\<rparr>"

definition db_refreshed :: db where
  "db_refreshed = db_registered
     \<lparr>secrets := [session1\<lparr>accessToken := ''renewed:a@x.com'', expiredAt := 172800002\<rparr>, session2]\<rparr>"

definition db_orphan :: db where
  "db_orphan = db_login1\<lparr>users := [alice\<lparr>deletedAt := Some 5\<rparr>]\<rparr>"

text \<open>The store after the first login, once the subject's role has been removed.\<close>

definition db_roleless :: db where
  "db_roleless = db_login1\<lparr>roles := []\<rparr>"

section \<open>Facts about the queries\<close>

lemma newest_mem: "newest r xs \<in> set (r # xs)"
  by (induction xs arbitrary: r) (auto split: if_splits)

lemma newest_ge_init: "secret_id r \<le> secret_id (newest r xs)"
proof (induction xs arbitrary: r)
  case Nil
  then show ?case by simp
next
  case (Cons x xs)
  have "secret_id r \<le> secret_id (if secret_id r < secret_id x then x else r)" by simp
  also have "\<dots> \<le> secret_id (newest (if secret_id r < secret_id x then x else r) xs)"
    by (rule Cons.IH)
  finally show ?case by simp
qed

lemma newest_ge: "x \<in> set xs \<Longrightarrow> secret_id x \<le> secret_id (newest r xs)"
proof (induction xs arbitrary: r)
  case Nil
  then show ?case by simp
next
  case (Cons y ys)
  show ?case
  proof (cases "x = y")
    case True
    have "secret_id y \<le> secret_id (if secret_id r < secret_id y then y else r)" by simp
    also have "\<dots> \<le> secret_id (newest (if secret_id r < secret_id y then y else r) ys)"
      by (rule newest_ge_init)
    finally show ?thesis using True by simp
  next
    case False
    with Cons.prems have "x \<in> set ys" by simp
    then show ?thesis using Cons.IH by simp
  qed
qed

lemma findOne_sort_desc_None: "(findOne_sort_desc P xs = None) = (\<forall>x \<in> set xs. \<not> P x)"
  by (auto simp: findOne_sort_desc_def filter_empty_conv split: list.splits)
   (metis filter_empty_conv list.distinct(1))

lemma findOne_sort_desc_Some:
  assumes "findOne_sort_desc P xs = Some r"
  shows "r \<in> set xs" and "P r" and "\<And>x. x \<in> set xs \<Longrightarrow> P x \<Longrightarrow> secret_id x \<le> secret_id r"
proof -
  from assms obtain y ys where f: "filter P xs = y # ys" and r: "r = newest y ys"
    by (auto simp: findOne_sort_desc_def split: list.splits)
  have "r \<in> set (filter P xs)" using newest_mem [of y ys] f r by simp
  then show "r \<in> set xs" and "P r" by auto
  fix x assume "x \<in> set xs" "P x"
  then have "x \<in> set (filter P xs)" by simp
  then have "x \<in> set (y # ys)" using f by simp
  then show "secret_id x \<le> secret_id r"
    using newest_ge [of x ys y] newest_ge_init [of y ys] r by auto
qed

lemma findByIdAndDelete_remove1:
  "r \<in> set xs \<Longrightarrow> distinct (map secret_id xs) \<Longrightarrow>
   findByIdAndDelete (secret_id r) xs = (Some r, remove1 r xs)"
  by (induction xs) (auto simp: rev_image_eqI)

lemma findByIdAndUpdate_nth:
  "r \<in> set xs \<Longrightarrow> distinct (map secret_id xs) \<Longrightarrow>
   \<exists>i < length xs. xs ! i = r \<and>
     findByIdAndUpdate (secret_id r) tok ty rby e xs =
       xs[i := r\<lparr>accessToken := tok, resourceType := ty, resourceBy := rby, expiredAt := e\<rparr>]"
proof (induction xs)
  case Nil
  then show ?case by simp
next
  case (Cons x xs)
  show ?case
  proof (cases "secret_id x = secret_id r")
    case True
    with Cons.prems have "x = r" by (auto simp: rev_image_eqI)
    then have "(x # xs) ! 0 = r \<and> findByIdAndUpdate (secret_id r) tok ty rby e (x # xs) =
       (x # xs)[0 := r\<lparr>accessToken := tok, resourceType := ty, resourceBy := rby, expiredAt := e\<rparr>]"
      by simp
    then show ?thesis by blast
  next
    case False
    with Cons.prems have "r \<in> set xs" "distinct (map secret_id xs)" by auto
    from Cons.IH [OF this] obtain i where i: "i < length xs" "xs ! i = r"
      "findByIdAndUpdate (secret_id r) tok ty rby e xs =
       xs[i := r\<lparr>accessToken := tok, resourceType := ty, resourceBy := rby, expiredAt := e\<rparr>]"
      by blast
    then have "Suc i < length (x # xs) \<and> (x # xs) ! Suc i = r \<and>
       findByIdAndUpdate (secret_id r) tok ty rby e (x # xs) =
       (x # xs)[Suc i := r\<lparr>accessToken := tok, resourceType := ty, resourceBy := rby, expiredAt := e\<rparr>]"
      using False by simp
    then show ?thesis by blast
  qed
qed

lemma findByIdAndUpdate_ids:
  "map secret_id (findByIdAndUpdate i tok ty rby e xs) = map secret_id xs"
  by (induction xs) auto

lemma fold_max_ge: "x \<in> set ids \<Longrightarrow> x \<le> fold max ids (a::nat)"
proof (induction ids arbitrary: a)
  case Nil then show ?case by simp
next
  case (Cons y ys)
  have mono: "\<And>b. b \<le> fold max ys (b::nat)"
  proof -
    fix b :: nat show "b \<le> fold max ys b"
      by (induction ys arbitrary: b) (auto intro: order_trans [OF max.cobounded2])
  qed
  show ?case
  proof (cases "x = y")
    case True
    have "y \<le> max y a" by simp
    also have "\<dots> \<le> fold max ys (max y a)" by (rule mono)
    finally show ?thesis using True by simp
  next
    case False
    then show ?thesis using Cons by simp
  qed
qed

lemma new_id_fresh: "new_id ids \<notin> set ids"
  using fold_max_ge [of "new_id ids" ids 0] by (auto simp: new_id_def)


lemma latest_for_findOne_sort_desc:
  assumes "wf_db s"
  shows "latest_for sid s r \<longleftrightarrow> findOne_sort_desc (\<lambda>x. resourceBy x = sid) (secrets s) = Some r"
proof
  assume l: "latest_for sid s r"
  then have "\<not> (\<forall>x \<in> set (secrets s). \<not> resourceBy x = sid)"
    by (auto simp: latest_for_def)
  then obtain r' where r': "findOne_sort_desc (\<lambda>x. resourceBy x = sid) (secrets s) = Some r'"
    using findOne_sort_desc_None [of "\<lambda>x. resourceBy x = sid" "secrets s"] by auto
  note p = findOne_sort_desc_Some [OF r']
  have "secret_id r' \<le> secret_id r" using l p(1,2) by (simp add: latest_for_def)
  moreover have "secret_id r \<le> secret_id r'" using l p(3) [of r] by (simp add: latest_for_def)
  ultimately have "secret_id r = secret_id r'" by simp
  moreover have "r \<in> set (secrets s)" using l by (simp add: latest_for_def)
  ultimately have "r = r'"
    using assms p(1) by (auto simp: wf_db_def distinct_map inj_on_def)
  with r' show "findOne_sort_desc (\<lambda>x. resourceBy x = sid) (secrets s) = Some r" by simp
next
  assume f: "findOne_sort_desc (\<lambda>x. resourceBy x = sid) (secrets s) = Some r"
  show "latest_for sid s r"
    using findOne_sort_desc_Some [OF f] by (auto simp: latest_for_def)
qed

lemma catch_thrown:
  "catch_reject (Thrown (apiResponse BAD_REQUEST m None)) = apiResponse BAD_REQUEST m None"
  by (simp add: catch_reject_def apiResponse_def BAD_REQUEST_def)

lemma by_resource_Some: "by_resource env (Some sid) = (\<lambda>x. resourceBy x = sid)"
  by (rule ext) (simp add: by_resource_def)

lemma healthTokenUsers_by_latest:
  "healthTokenUsers env (Some \<lparr>body_id = Some sid\<rparr>) now s =
     (case findOne_sort_desc (\<lambda>x. resourceBy x = sid) (secrets s) of
        None \<Rightarrow> (Inl (apiResponse BAD_REQUEST ''AccessToken is not exist'' None), s)
      | Some r \<Rightarrow>
          if expiredAt r < now then (Inl (apiResponse BAD_REQUEST ''AccessToken expired'' None), s)
          else (Inr (apiResponse OK ''AccessToken healthy'' None), s))"
  by (simp add: healthTokenUsers_def by_resource_Some dateFormat_def catch_thrown
           try_catch_def split: option.splits)

lemma revokeTokenUsers_by_latest:
  assumes "wf_db s"
  shows "revokeTokenUsers env (Some \<lparr>body_id = Some sid\<rparr>) now s =
     (case findOne_sort_desc (\<lambda>x. resourceBy x = sid) (secrets s) of
        None \<Rightarrow> (Inl (apiResponse BAD_REQUEST ''AccessToken is not exist'' None), s)
      | Some r \<Rightarrow>
          if expiredAt r < now then (Inl (apiResponse BAD_REQUEST ''AccessToken expired'' None), s)
          else (Inr (apiResponse OK ''Revoke accessToken success'' None),
                s\<lparr>secrets := remove1 r (secrets s)\<rparr>))"
proof (cases "findOne_sort_desc (\<lambda>x. resourceBy x = sid) (secrets s)")
  case None
  then show ?thesis
    by (simp add: revokeTokenUsers_def by_resource_Some catch_thrown try_catch_def)
next
  case (Some r)
  then have "r \<in> set (secrets s)" by (rule findOne_sort_desc_Some(1))
  then have d: "findByIdAndDelete (secret_id r) (secrets s) = (Some r, remove1 r (secrets s))"
    using assms by (simp add: findByIdAndDelete_remove1 wf_db_def)
  show ?thesis
    using Some d
    by (simp add: revokeTokenUsers_def by_resource_Some dateFormat_def catch_thrown try_catch_def)
qed

lemma refreshTokenUsers_success:
  assumes "findOne_sort_desc
             (\<lambda>x. accessToken x = body_accessToken body \<and> resourceType x = ''login'') (secrets s) = Some r"
    and "expiredAt r \<le> now"
    and "findOne (\<lambda>u. user_id u = resourceBy r \<and> deletedAt u = None) (users s) = Some u"
    and "populate (roles s) u = Some role"
  shows "refreshTokenUsers env body now s =
     (Inr (apiResponse OK ''Refresh accessToken success''
            (Some (TokenRes
               (refreshToken_jwt env \<lparr>jwt_id = user_id u, jwt_email = email u, jwt_role = name role\<rparr> now)
               (now + 86400000) (name role)))),
      s\<lparr>secrets := findByIdAndUpdate (secret_id r)
          (refreshToken_jwt env \<lparr>jwt_id = user_id u, jwt_email = email u, jwt_role = name role\<rparr> now)
          ''login'' (user_id u) (now + 86400000) (secrets s)\<rparr>)"
  using assms
  by (simp add: refreshTokenUsers_def dateFormat_def expiredAt_fn_def try_catch_def Let_def)

lemma refreshTokenUsers_resolved:
  assumes "fst (refreshTokenUsers env body now s) = Inr resp"
  shows "\<exists>r u role.
           findOne_sort_desc
             (\<lambda>x. accessToken x = body_accessToken body \<and> resourceType x = ''login'') (secrets s) = Some r
         \<and> expiredAt r \<le> now
         \<and> findOne (\<lambda>u. user_id u = resourceBy r \<and> deletedAt u = None) (users s) = Some u
         \<and> populate (roles s) u = Some role"
  using assms
  by (auto simp: refreshTokenUsers_def dateFormat_def try_catch_def Let_def
           split: option.splits if_splits)

lemma findOne_Some:
  "findOne P xs = Some x \<Longrightarrow> x \<in> set xs \<and> P x"
  by (auto simp: findOne_def find_Some_iff)

lemma findOne_None: "(findOne P xs = None) = (\<forall>x \<in> set xs. \<not> P x)"
  by (auto simp: findOne_def find_None_iff)

section \<open>Facts about the operations\<close>

lemma resolved_conv: "resolved p \<longleftrightarrow> (\<exists>resp. fst p = Inr resp)"
  by (cases "fst p") (simp_all add: resolved_def)

lemma sessions_of_empty_conv:
  "sessions_of sid s = [] \<longleftrightarrow> findOne_sort_desc (\<lambda>x. resourceBy x = sid) (secrets s) = None"
  by (simp add: sessions_of_def findOne_sort_desc_None filter_empty_conv)

lemma length_remove1_Suc: "x \<in> set xs \<Longrightarrow> length xs = Suc (length (remove1 x xs))"
  by (induction xs) auto

lemma revokeTokenUsers_resolved:
  assumes wf: "wf_db s"
    and ok: "fst (revokeTokenUsers env (Some \<lparr>body_id = Some sid\<rparr>) now s) = Inr resp"
  shows "\<exists>r. latest_for sid s r \<and> now \<le> expiredAt r
           \<and> revokeTokenUsers env (Some \<lparr>body_id = Some sid\<rparr>) now s =
               (Inr (apiResponse OK ''Revoke accessToken success'' None),
                s\<lparr>secrets := remove1 r (secrets s)\<rparr>)"
  using ok
  by (auto simp: revokeTokenUsers_by_latest [OF wf] latest_for_findOne_sort_desc [OF wf]
           split: option.splits if_splits)

lemma registerUsers_conflict:
  assumes "\<exists>u \<in> set (users s). email u = reg_email body \<and> deletedAt u = None"
  shows "registerUsers env body s =
           (Inl (apiResponse BAD_REQUEST (''Email '' @ reg_email body @ '' already taken'') None), s)"
proof -
  from assms have "findOne (\<lambda>u. email u = reg_email body \<and> deletedAt u = None) (users s) \<noteq> None"
    by (simp add: findOne_None)
  then show ?thesis
    by (auto simp: registerUsers_def try_catch_def catch_thrown)
qed

lemma registerUsers_resolved:
  assumes "fst (registerUsers env body s) = Inr resp"
  shows "registerUsers env body s =
           (Inr (apiResponse OK ''Register new user account success'' None),
            s\<lparr>users := users s @
               [\<lparr>user_id = new_id (map user_id (users s)), email = reg_email body,
                 password = hashPassword env (reg_password body), active = default_active env,
                 roleId = default_roleId env, deletedAt = None\<rparr>]\<rparr>)"
  using assms
  by (auto simp: registerUsers_def try_catch_def users_create_def Let_def split: option.splits)

subsection \<open>The operations keep the store well formed\<close>

lemma wf_db_registerUsers: "wf_db s \<Longrightarrow> wf_db (snd (registerUsers env body s))"
  by (auto simp: registerUsers_def try_catch_def wf_db_def users_create_def Let_def
           split: option.splits)

lemma wf_db_loginUsers: "wf_db s \<Longrightarrow> wf_db (snd (loginUsers env body now s))"
  using new_id_fresh [of "map secret_id (secrets s)"]
  by (auto simp: loginUsers_def try_catch_def wf_db_def secrets_create_def Let_def
           split: option.splits)

lemma wf_db_refreshTokenUsers: "wf_db s \<Longrightarrow> wf_db (snd (refreshTokenUsers env body now s))"
  by (auto simp: refreshTokenUsers_def try_catch_def wf_db_def findByIdAndUpdate_ids Let_def
           split: option.splits)

lemma findByIdAndDelete_distinct:
  "distinct (map secret_id xs) \<Longrightarrow> distinct (map secret_id (snd (findByIdAndDelete i xs)))"
proof (induction xs)
  case Nil
  then show ?case by simp
next
  case (Cons x xs)
  have sub: "\<And>ys. set (snd (findByIdAndDelete i ys)) \<subseteq> set ys"
  proof -
    fix ys show "set (snd (findByIdAndDelete i ys)) \<subseteq> set ys"
      by (induction ys) auto
  qed
  from Cons show ?case using sub [of xs] by auto
qed

lemma wf_db_revokeTokenUsers: "wf_db s \<Longrightarrow> wf_db (snd (revokeTokenUsers env body now s))"
  by (auto simp: revokeTokenUsers_def try_catch_def wf_db_def findByIdAndDelete_distinct Let_def
           split: option.splits)

subsection \<open>The concrete run reaches its stores\<close>

text \<open>
  Registration on the empty store, two logins and one refresh give \<open>db_registered\<close>,
  \<open>db_login1\<close>, \<open>db_login2\<close> and \<open>db_refreshed\<close> in turn.
\<close>

lemma concrete_run:
  "registerUsers example_pkg \<lparr>reg_email = ''a@x.com'', reg_password = ''pw1''\<rparr> db_empty =
     (Inr (apiResponse OK ''Register new user account success'' None), db_registered)"
  "snd (loginUsers example_pkg \<lparr>login_email = ''a@x.com'', login_password = ''pw1''\<rparr> 0 db_registered) = db_login1"
  "snd (loginUsers example_pkg \<lparr>login_email = ''a@x.com'', login_password = ''pw1''\<rparr> 1 db_login1) = db_login2"
  "snd (refreshTokenUsers example_pkg \<lparr>body_accessToken = ''access:a@x.com/''\<rparr> 86400002 db_login2) = db_refreshed"
  by code_simp+

section \<open>The claims\<close>

text \<open>
  In what follows \<open>Inl\<close> of a pair's first component is the rejected promise and the second
  component is the database after the call. The error kinds of the specification are told
  apart by the message of the rejected response, since the rejections met below all carry
  the code 400: \<^verbatim>\<open>TokenNotExpired\<close> is "Your accessToken is not expired",
  \<^verbatim>\<open>NotFound\<close> is "AccessToken is not exist", \<^verbatim>\<open>TokenExpired\<close> is "AccessToken expired",
  \<^verbatim>\<open>Conflict\<close> is "Email ... already taken". The model reads the clock once per call;
  the source reads it at the comparison and again, a moment later, inside \<^verbatim>\<open>expiredAt\<close>.
\<close>

subsection \<open>C1\<close>

text \<open>
  Claim C1. The claim that a refresh of an expired access token resolves as soon as the subject
  still exists does not hold: the subject's role must resolve too. On the store after one
  login whose roles collection no longer holds the subject's role, the secret is found and
  has expired, the subject is found and is not soft-deleted, and yet reading the name of the
  populated role throws; the call is rejected with the engine's message and writes nothing.
\<close>

theorem refreshTokenUsers_role_counterexample:
  "findOne_sort_desc
      (\<lambda>x. accessToken x = body_accessToken \<lparr>body_accessToken = ''access:a@x.com/''\<rparr>
           \<and> resourceType x = ''login'') (secrets db_roleless) = Some session1
 \<and> expiredAt session1 \<le> 86400002
 \<and> wf_db db_roleless
 \<and> findOne (\<lambda>u. user_id u = resourceBy session1 \<and> deletedAt u = None) (users db_roleless) = Some alice
 \<and> populate (roles db_roleless) alice = None
 \<and> refreshTokenUsers example_pkg \<lparr>body_accessToken = ''access:a@x.com/''\<rparr> 86400002 db_roleless =
     (Inl (apiResponse BAD_REQUEST ''Cannot read properties of null (reading 'name')'' None), db_roleless)"
  by code_simp

text \<open>
  Claim C1, as amended. Let a call of \<^verbatim>\<open>refreshTokenUsers\<close> find the secret \<open>r\<close> for its
  access token (type "login", largest \<^verbatim>\<open>_id\<close>). If \<open>r\<close> expires strictly after \<open>now\<close>,
  the call is rejected with "Your accessToken is not expired" and writes nothing. If \<open>r\<close>
  has expired (\<open>expiredAt r \<le> now\<close>), its subject is found, not soft-deleted, and the
  subject's role is found, the call resolves; the expiry it returns is strictly later than
  the old one, and it is the expiry stored in the same record (same position, same
  \<^verbatim>\<open>_id\<close>) of a well-formed store.
\<close>

theorem refreshTokenUsers_expiry:
  assumes found: "findOne_sort_desc
             (\<lambda>x. accessToken x = body_accessToken body \<and> resourceType x = ''login'') (secrets s) = Some r"
  shows "(now < expiredAt r \<longrightarrow>
            refreshTokenUsers env body now s =
              (Inl (apiResponse BAD_REQUEST ''Your accessToken is not expired'' None), s))
       \<and> (expiredAt r \<le> now \<and> wf_db s
            \<and> findOne (\<lambda>u. user_id u = resourceBy r \<and> deletedAt u = None) (users s) = Some u
            \<and> populate (roles s) u = Some role \<longrightarrow>
            (\<exists>tok e i.
               fst (refreshTokenUsers env body now s) =
                 Inr (apiResponse OK ''Refresh accessToken success'' (Some (TokenRes tok e (name role))))
             \<and> expiredAt r < e
             \<and> i < length (secrets s) \<and> secrets s ! i = r
             \<and> secret_id (secrets (snd (refreshTokenUsers env body now s)) ! i) = secret_id r
             \<and> expiredAt (secrets (snd (refreshTokenUsers env body now s)) ! i) = e))"
proof (intro conjI impI)
  assume "now < expiredAt r"
  with found show "refreshTokenUsers env body now s =
      (Inl (apiResponse BAD_REQUEST ''Your accessToken is not expired'' None), s)"
    by (simp add: refreshTokenUsers_def dateFormat_def try_catch_def catch_thrown)
next
  assume a: "expiredAt r \<le> now \<and> wf_db s
            \<and> findOne (\<lambda>u. user_id u = resourceBy r \<and> deletedAt u = None) (users s) = Some u
            \<and> populate (roles s) u = Some role"
  let ?tok = "refreshToken_jwt env \<lparr>jwt_id = user_id u, jwt_email = email u, jwt_role = name role\<rparr> now"
  let ?e = "now + 86400000"
  let ?r' = "r\<lparr>accessToken := ?tok, resourceType := ''login'', resourceBy := user_id u, expiredAt := ?e\<rparr>"
  from a have run: "refreshTokenUsers env body now s =
     (Inr (apiResponse OK ''Refresh accessToken success'' (Some (TokenRes ?tok ?e (name role)))),
      s\<lparr>secrets := findByIdAndUpdate (secret_id r) ?tok ''login'' (user_id u) ?e (secrets s)\<rparr>)"
    using refreshTokenUsers_success [OF found, of now u role env] by simp
  have mem: "r \<in> set (secrets s)" using found by (rule findOne_sort_desc_Some(1))
  from a have "distinct (map secret_id (secrets s))" by (simp add: wf_db_def)
  from findByIdAndUpdate_nth [OF mem this, of ?tok "''login''" "user_id u" ?e]
  obtain i where i: "i < length (secrets s)" "secrets s ! i = r"
    "findByIdAndUpdate (secret_id r) ?tok ''login'' (user_id u) ?e (secrets s) = (secrets s)[i := ?r']"
    by blast
  have "expiredAt r < ?e" using a by simp
  moreover have "secret_id (secrets (snd (refreshTokenUsers env body now s)) ! i) = secret_id r"
    using run i by simp
  moreover have "expiredAt (secrets (snd (refreshTokenUsers env body now s)) ! i) = ?e"
    using run i by simp
  moreover have "fst (refreshTokenUsers env body now s) =
      Inr (apiResponse OK ''Refresh accessToken success'' (Some (TokenRes ?tok ?e (name role))))"
    using run by simp
  ultimately show "\<exists>tok e i.
               fst (refreshTokenUsers env body now s) =
                 Inr (apiResponse OK ''Refresh accessToken success'' (Some (TokenRes tok e (name role))))
             \<and> expiredAt r < e
             \<and> i < length (secrets s) \<and> secrets s ! i = r
             \<and> secret_id (secrets (snd (refreshTokenUsers env body now s)) ! i) = secret_id r
             \<and> expiredAt (secrets (snd (refreshTokenUsers env body now s)) ! i) = e"
    using i(1,2) by blast
qed

text \<open>
  On the store after two logins: refreshing the first token at time 5 is rejected, and at
  time 86400002, after its expiry, resolves.
\<close>

theorem refreshTokenUsers_expiry_witness:
  "findOne_sort_desc
      (\<lambda>x. accessToken x = body_accessToken \<lparr>body_accessToken = ''access:a@x.com/''\<rparr>
           \<and> resourceType x = ''login'') (secrets db_login2) = Some session1
 \<and> 5 < expiredAt session1
 \<and> refreshTokenUsers example_pkg \<lparr>body_accessToken = ''access:a@x.com/''\<rparr> 5 db_login2 =
      (Inl (apiResponse BAD_REQUEST ''Your accessToken is not expired'' None), db_login2)
 \<and> expiredAt session1 \<le> 86400002 \<and> wf_db db_login2
 \<and> findOne (\<lambda>u. user_id u = resourceBy session1 \<and> deletedAt u = None) (users db_login2) = Some alice
 \<and> populate (roles db_login2) alice = Some \<lparr>role_id = 1, name = ''user''\<rparr>
 \<and> (\<exists>tok e i.
       fst (refreshTokenUsers example_pkg \<lparr>body_accessToken = ''access:a@x.com/''\<rparr> 86400002 db_login2) =
         Inr (apiResponse OK ''Refresh accessToken success''
               (Some (TokenRes tok e (name \<lparr>role_id = 1, name = ''user''\<rparr>))))
     \<and> expiredAt session1 < e
     \<and> i < length (secrets db_login2) \<and> secrets db_login2 ! i = session1
     \<and> secret_id (secrets (snd (refreshTokenUsers example_pkg
           \<lparr>body_accessToken = ''access:a@x.com/''\<rparr> 86400002 db_login2)) ! i) = secret_id session1
     \<and> expiredAt (secrets (snd (refreshTokenUsers example_pkg
           \<lparr>body_accessToken = ''access:a@x.com/''\<rparr> 86400002 db_login2)) ! i) = e)"
proof -
  have f: "findOne_sort_desc
      (\<lambda>x. accessToken x = body_accessToken \<lparr>body_accessToken = ''access:a@x.com/''\<rparr>
           \<and> resourceType x = ''login'') (secrets db_login2) = Some session1"
    by code_simp
  have h1: "5 < expiredAt session1" by code_simp
  have h2: "expiredAt session1 \<le> 86400002 \<and> wf_db db_login2
     \<and> findOne (\<lambda>u. user_id u = resourceBy session1 \<and> deletedAt u = None) (users db_login2) = Some alice
     \<and> populate (roles db_login2) alice = Some \<lparr>role_id = 1, name = ''user''\<rparr>"
    by code_simp
  note a = refreshTokenUsers_expiry [OF f, where now = 5 and env = example_pkg]
  note b = refreshTokenUsers_expiry [OF f, where now = 86400002 and env = example_pkg and u = alice
             and role = "\<lparr>role_id = 1, name = ''user''\<rparr>"]
  from a h1 have c1: "refreshTokenUsers example_pkg \<lparr>body_accessToken = ''access:a@x.com/''\<rparr> 5 db_login2 =
      (Inl (apiResponse BAD_REQUEST ''Your accessToken is not expired'' None), db_login2)"
    by blast
  from b h2 have c2: "\<exists>tok e i.
       fst (refreshTokenUsers example_pkg \<lparr>body_accessToken = ''access:a@x.com/''\<rparr> 86400002 db_login2) =
         Inr (apiResponse OK ''Refresh accessToken success''
               (Some (TokenRes tok e (name \<lparr>role_id = 1, name = ''user''\<rparr>))))
     \<and> expiredAt session1 < e
     \<and> i < length (secrets db_login2) \<and> secrets db_login2 ! i = session1
     \<and> secret_id (secrets (snd (refreshTokenUsers example_pkg
           \<lparr>body_accessToken = ''access:a@x.com/''\<rparr> 86400002 db_login2)) ! i) = secret_id session1
     \<and> expiredAt (secrets (snd (refreshTokenUsers example_pkg
           \<lparr>body_accessToken = ''access:a@x.com/''\<rparr> 86400002 db_login2)) ! i) = e"
    by blast
  from f h1 c1 h2 c2 show ?thesis by blast
qed

subsection \<open>C2\<close>

text \<open>
  Claim C2. The claim that a login with an unknown email and a login with a wrong password fail
  with the same kind and message does not hold: on the store with one registered subject the
  first is rejected with "Email is not registered", the second with "Email or password
  failed", and the two responses differ.
\<close>

theorem loginUsers_enumeration_counterexample:
  "fst (loginUsers example_pkg \<lparr>login_email = ''b@x.com'', login_password = ''pw1''\<rparr> 0 db_registered) =
     Inl (apiResponse BAD_REQUEST ''Email is not registered'' None)
 \<and> fst (loginUsers example_pkg \<lparr>login_email = ''a@x.com'', login_password = ''pw2''\<rparr> 0 db_registered) =
     Inl (apiResponse BAD_REQUEST ''Email or password failed'' None)
 \<and> fst (loginUsers example_pkg \<lparr>login_email = ''b@x.com'', login_password = ''pw1''\<rparr> 0 db_registered) \<noteq>
   fst (loginUsers example_pkg \<lparr>login_email = ''a@x.com'', login_password = ''pw2''\<rparr> 0 db_registered)"
  by code_simp

text \<open>
  Claim C2, as amended. On every store, a login whose email matches no subject that is not
  soft-deleted is rejected with code 400 and "Email is not registered"; a login whose email
  finds an active subject and whose password does not compare is rejected with code 400 and
  "Email or password failed". Both write nothing; the codes agree and the messages differ.
\<close>

theorem loginUsers_failures_differ:
  "((\<forall>u \<in> set (users s). email u = login_email b1 \<longrightarrow> deletedAt u \<noteq> None) \<longrightarrow>
        loginUsers env b1 now s = (Inl (apiResponse BAD_REQUEST ''Email is not registered'' None), s))
 \<and> (findOne (\<lambda>u. email u = login_email b2 \<and> deletedAt u = None) (users s) = Some u
        \<and> active u \<and> \<not> comparePassword env (login_password b2) (password u) \<longrightarrow>
        loginUsers env b2 now s = (Inl (apiResponse BAD_REQUEST ''Email or password failed'' None), s))
 \<and> stat_code (apiResponse BAD_REQUEST ''Email is not registered'' None)
     = stat_code (apiResponse BAD_REQUEST ''Email or password failed'' None)
 \<and> stat_message (apiResponse BAD_REQUEST ''Email is not registered'' None)
     \<noteq> stat_message (apiResponse BAD_REQUEST ''Email or password failed'' None)"
proof (intro conjI impI)
  assume "\<forall>u \<in> set (users s). email u = login_email b1 \<longrightarrow> deletedAt u \<noteq> None"
  then have "findOne (\<lambda>u. email u = login_email b1 \<and> deletedAt u = None) (users s) = None"
    by (auto simp: findOne_None)
  then show "loginUsers env b1 now s = (Inl (apiResponse BAD_REQUEST ''Email is not registered'' None), s)"
    by (simp add: loginUsers_def try_catch_def catch_thrown)
next
  assume "findOne (\<lambda>u. email u = login_email b2 \<and> deletedAt u = None) (users s) = Some u
        \<and> active u \<and> \<not> comparePassword env (login_password b2) (password u)"
  then show "loginUsers env b2 now s = (Inl (apiResponse BAD_REQUEST ''Email or password failed'' None), s)"
    by (simp add: loginUsers_def try_catch_def catch_thrown)
qed (simp_all add: apiResponse_def)

theorem loginUsers_failures_differ_witness:
  "findOne (\<lambda>u. email u = login_email \<lparr>login_email = ''b@x.com'', login_password = ''pw1''\<rparr>
                \<and> deletedAt u = None) (users db_registered) = None
 \<and> loginUsers example_pkg \<lparr>login_email = ''b@x.com'', login_password = ''pw1''\<rparr> 0 db_registered =
     (Inl (apiResponse BAD_REQUEST ''Email is not registered'' None), db_registered)
 \<and> findOne (\<lambda>u. email u = login_email \<lparr>login_email = ''a@x.com'', login_password = ''pw2''\<rparr>
                \<and> deletedAt u = None) (users db_registered) = Some alice
 \<and> active alice \<and> \<not> comparePassword example_pkg ''pw2'' (password alice)
 \<and> loginUsers example_pkg \<lparr>login_email = ''a@x.com'', login_password = ''pw2''\<rparr> 0 db_registered =
     (Inl (apiResponse BAD_REQUEST ''Email or password failed'' None), db_registered)"
proof -
  have h1: "\<forall>u \<in> set (users db_registered).
              email u = login_email \<lparr>login_email = ''b@x.com'', login_password = ''pw1''\<rparr>
              \<longrightarrow> deletedAt u \<noteq> None"
    by code_simp
  have n: "findOne (\<lambda>u. email u = login_email \<lparr>login_email = ''b@x.com'', login_password = ''pw1''\<rparr>
                \<and> deletedAt u = None) (users db_registered) = None"
    by code_simp
  have h2: "findOne (\<lambda>u. email u = login_email \<lparr>login_email = ''a@x.com'', login_password = ''pw2''\<rparr>
                \<and> deletedAt u = None) (users db_registered) = Some alice
      \<and> active alice
      \<and> \<not> comparePassword example_pkg
            (login_password \<lparr>login_email = ''a@x.com'', login_password = ''pw2''\<rparr>) (password alice)"
    by code_simp
  note t = loginUsers_failures_differ [where s = db_registered and env = example_pkg and now = 0
      and ?b1.0 = "\<lparr>login_email = ''b@x.com'', login_password = ''pw1''\<rparr>"
      and ?b2.0 = "\<lparr>login_email = ''a@x.com'', login_password = ''pw2''\<rparr>" and u = alice]
  from t h1 have c1: "loginUsers example_pkg \<lparr>login_email = ''b@x.com'', login_password = ''pw1''\<rparr> 0 db_registered =
     (Inl (apiResponse BAD_REQUEST ''Email is not registered'' None), db_registered)"
    by blast
  from t h2 have c2: "loginUsers example_pkg \<lparr>login_email = ''a@x.com'', login_password = ''pw2''\<rparr> 0 db_registered =
     (Inl (apiResponse BAD_REQUEST ''Email or password failed'' None), db_registered)"
    by blast
  from h2 have h2': "active alice \<and> \<not> comparePassword example_pkg ''pw2'' (password alice)"
    by simp
  from n c1 h2 h2' c2 show ?thesis by blast
qed

subsection \<open>C3\<close>

text \<open>
  Claim C3. The claim that \<^verbatim>\<open>healthTokenUsers\<close> resolves exactly when some secret of the
  subject has \<open>expiredAt \<ge> now\<close> does not hold. After two logins and a refresh of the first
  token, the subject's older record is live at time 86400003 while the newest one has expired,
  and the call is rejected with "AccessToken expired".
\<close>

theorem healthTokenUsers_exists_counterexample:
  "live_session 1 86400003 db_refreshed
 \<and> fst (healthTokenUsers example_pkg (Some \<lparr>body_id = Some 1\<rparr>) 86400003 db_refreshed) =
     Inl (apiResponse BAD_REQUEST ''AccessToken expired'' None)"
  by code_simp

text \<open>
  Claim C3, as amended. On a well-formed store, \<^verbatim>\<open>healthTokenUsers\<close> for a subject resolves if
  and only if the subject's most recently inserted secret (largest \<^verbatim>\<open>_id\<close>) has
  \<open>expiredAt \<ge> now\<close>; it is rejected with "AccessToken expired" when that record has
  \<open>expiredAt < now\<close>, and with "AccessToken is not exist" when the subject has no secret.
\<close>

theorem healthTokenUsers_latest_record:
  assumes wf: "wf_db s"
  shows "(resolved (healthTokenUsers env (Some \<lparr>body_id = Some sid\<rparr>) now s)
            \<longleftrightarrow> (\<exists>r. latest_for sid s r \<and> now \<le> expiredAt r))
       \<and> (\<forall>r. latest_for sid s r \<and> expiredAt r < now \<longrightarrow>
            fst (healthTokenUsers env (Some \<lparr>body_id = Some sid\<rparr>) now s) =
              Inl (apiResponse BAD_REQUEST ''AccessToken expired'' None))
       \<and> (sessions_of sid s = [] \<longrightarrow>
            fst (healthTokenUsers env (Some \<lparr>body_id = Some sid\<rparr>) now s) =
              Inl (apiResponse BAD_REQUEST ''AccessToken is not exist'' None))"
proof (intro conjI allI impI)
  show "resolved (healthTokenUsers env (Some \<lparr>body_id = Some sid\<rparr>) now s)
            \<longleftrightarrow> (\<exists>r. latest_for sid s r \<and> now \<le> expiredAt r)"
    by (auto simp: healthTokenUsers_by_latest latest_for_findOne_sort_desc [OF wf] resolved_def
             split: option.splits)
next
  fix r assume "latest_for sid s r \<and> expiredAt r < now"
  then show "fst (healthTokenUsers env (Some \<lparr>body_id = Some sid\<rparr>) now s) =
              Inl (apiResponse BAD_REQUEST ''AccessToken expired'' None)"
    by (simp add: healthTokenUsers_by_latest latest_for_findOne_sort_desc [OF wf])
next
  assume "sessions_of sid s = []"
  then show "fst (healthTokenUsers env (Some \<lparr>body_id = Some sid\<rparr>) now s) =
              Inl (apiResponse BAD_REQUEST ''AccessToken is not exist'' None)"
    by (simp add: healthTokenUsers_by_latest sessions_of_empty_conv)
qed

theorem healthTokenUsers_latest_record_witness:
  "wf_db db_refreshed
 \<and> latest_for 1 db_refreshed session2 \<and> expiredAt session2 < 86400003
 \<and> fst (healthTokenUsers example_pkg (Some \<lparr>body_id = Some 1\<rparr>) 86400003 db_refreshed) =
     Inl (apiResponse BAD_REQUEST ''AccessToken expired'' None)
 \<and> \<not> resolved (healthTokenUsers example_pkg (Some \<lparr>body_id = Some 1\<rparr>) 86400003 db_refreshed)
 \<and> 86400000 \<le> expiredAt session2
 \<and> resolved (healthTokenUsers example_pkg (Some \<lparr>body_id = Some 1\<rparr>) 86400000 db_refreshed)
 \<and> sessions_of 2 db_refreshed = []
 \<and> fst (healthTokenUsers example_pkg (Some \<lparr>body_id = Some 2\<rparr>) 86400003 db_refreshed) =
     Inl (apiResponse BAD_REQUEST ''AccessToken is not exist'' None)"
proof -
  have wf: "wf_db db_refreshed" by code_simp
  have l: "latest_for 1 db_refreshed session2" by code_simp
  have e: "expiredAt session2 < 86400003" "86400000 \<le> expiredAt session2" by code_simp+
  have n: "sessions_of 2 db_refreshed = []" by code_simp
  note a = healthTokenUsers_latest_record [OF wf, where sid = 1 and now = 86400003 and env = example_pkg]
  note b = healthTokenUsers_latest_record [OF wf, where sid = 1 and now = 86400000 and env = example_pkg]
  note c = healthTokenUsers_latest_record [OF wf, where sid = 2 and now = 86400003 and env = example_pkg]
  from a l e(1) have c1: "fst (healthTokenUsers example_pkg (Some \<lparr>body_id = Some 1\<rparr>) 86400003 db_refreshed) =
     Inl (apiResponse BAD_REQUEST ''AccessToken expired'' None)"
    by blast
  then have c2: "\<not> resolved (healthTokenUsers example_pkg (Some \<lparr>body_id = Some 1\<rparr>) 86400003 db_refreshed)"
    by (simp add: resolved_def)
  from b l e(2) have c3: "resolved (healthTokenUsers example_pkg (Some \<lparr>body_id = Some 1\<rparr>) 86400000 db_refreshed)"
    by blast
  from c n have c4: "fst (healthTokenUsers example_pkg (Some \<lparr>body_id = Some 2\<rparr>) 86400003 db_refreshed) =
     Inl (apiResponse BAD_REQUEST ''AccessToken is not exist'' None)"
    by blast
  from wf l e c1 c2 c3 n c4 show ?thesis by blast
qed

subsection \<open>C4\<close>

text \<open>
  Claim C4. The claim that a health check after a successful revoke is rejected as not found,
  also when the subject has several secrets, does not hold: after two logins, a revoke at
  time 2 removes the newer secret only, and the health check that follows finds the older one
  and resolves.
\<close>

theorem revoke_then_health_counterexample:
  "revokeTokenUsers example_pkg (Some \<lparr>body_id = Some 1\<rparr>) 2 db_login2 =
     (Inr (apiResponse OK ''Revoke accessToken success'' None), db_login1)
 \<and> fst (healthTokenUsers example_pkg (Some \<lparr>body_id = Some 1\<rparr>) 2
          (snd (revokeTokenUsers example_pkg (Some \<lparr>body_id = Some 1\<rparr>) 2 db_login2))) =
     Inr (apiResponse OK ''AccessToken healthy'' None)"
  by code_simp

text \<open>
  Claim C4, as amended. On a well-formed store in which the subject has exactly one secret, if
  \<^verbatim>\<open>revokeTokenUsers\<close> resolves then \<^verbatim>\<open>healthTokenUsers\<close> on the resulting store, at any
  time, is rejected with "AccessToken is not exist".
\<close>

theorem revoke_only_session_then_health:
  assumes wf: "wf_db s"
    and ok: "fst (revokeTokenUsers env (Some \<lparr>body_id = Some sid\<rparr>) now s) = Inr resp"
    and one: "length (sessions_of sid s) = 1"
  shows "fst (healthTokenUsers env (Some \<lparr>body_id = Some sid\<rparr>) now'
                (snd (revokeTokenUsers env (Some \<lparr>body_id = Some sid\<rparr>) now s))) =
           Inl (apiResponse BAD_REQUEST ''AccessToken is not exist'' None)"
proof -
  from revokeTokenUsers_resolved [OF wf ok] obtain r where
    l: "latest_for sid s r"
    and run: "revokeTokenUsers env (Some \<lparr>body_id = Some sid\<rparr>) now s =
               (Inr (apiResponse OK ''Revoke accessToken success'' None),
                s\<lparr>secrets := remove1 r (secrets s)\<rparr>)"
    by blast
  have mem: "r \<in> set (sessions_of sid s)"
    using l by (simp add: latest_for_def sessions_of_def)
  from one obtain x where x: "sessions_of sid s = [x]"
    by (cases "sessions_of sid s") auto
  with mem have "sessions_of sid s = [r]" by simp
  moreover have "sessions_of sid (s\<lparr>secrets := remove1 r (secrets s)\<rparr>) = remove1 r (sessions_of sid s)"
    using l by (simp add: sessions_of_def latest_for_def filter_remove1)
  ultimately have "sessions_of sid (s\<lparr>secrets := remove1 r (secrets s)\<rparr>) = []" by simp
  then have "findOne_sort_desc (\<lambda>x. resourceBy x = sid) (secrets (s\<lparr>secrets := remove1 r (secrets s)\<rparr>)) = None"
    by (simp only: sessions_of_empty_conv)
  then show ?thesis
    using run by (simp add: healthTokenUsers_by_latest)
qed

theorem revoke_only_session_then_health_witness:
  "wf_db db_login1
 \<and> fst (revokeTokenUsers example_pkg (Some \<lparr>body_id = Some 1\<rparr>) 2 db_login1) =
     Inr (apiResponse OK ''Revoke accessToken success'' None)
 \<and> length (sessions_of 1 db_login1) = 1
 \<and> fst (healthTokenUsers example_pkg (Some \<lparr>body_id = Some 1\<rparr>) 2
          (snd (revokeTokenUsers example_pkg (Some \<lparr>body_id = Some 1\<rparr>) 2 db_login1))) =
     Inl (apiResponse BAD_REQUEST ''AccessToken is not exist'' None)"
proof -
  have wf: "wf_db db_login1" by code_simp
  have ok: "fst (revokeTokenUsers example_pkg (Some \<lparr>body_id = Some 1\<rparr>) 2 db_login1) =
     Inr (apiResponse OK ''Revoke accessToken success'' None)"
    by code_simp
  have one: "length (sessions_of 1 db_login1) = 1" by code_simp
  from revoke_only_session_then_health [OF wf ok one, of 2] wf ok one show ?thesis by blast
qed

subsection \<open>C5\<close>

text \<open>
  Claim C5. If \<^verbatim>\<open>registerUsers\<close> resolves, it has appended one subject, not soft-deleted, with
  the email of the request and with \<open>hashPassword\<close> of the request's password as its
  password, which is therefore not the plaintext wherever hashing changes it; and every
  registration with the same email on the resulting store is rejected with
  "Email ... already taken", leaving the store as it is.
\<close>

theorem registerUsers_conflict_and_hash:
  assumes ok: "fst (registerUsers env body s) = Inr resp"
  shows "(\<exists>u. users (snd (registerUsers env body s)) = users s @ [u]
              \<and> email u = reg_email body \<and> deletedAt u = None
              \<and> password u = hashPassword env (reg_password body)
              \<and> (hashPassword env (reg_password body) \<noteq> reg_password body
                   \<longrightarrow> password u \<noteq> reg_password body))
       \<and> (\<forall>pw. registerUsers env \<lparr>reg_email = reg_email body, reg_password = pw\<rparr>
                  (snd (registerUsers env body s)) =
                (Inl (apiResponse BAD_REQUEST (''Email '' @ reg_email body @ '' already taken'') None),
                 snd (registerUsers env body s)))"
proof (intro conjI allI)
  note run = registerUsers_resolved [OF ok]
  show "\<exists>u. users (snd (registerUsers env body s)) = users s @ [u]
              \<and> email u = reg_email body \<and> deletedAt u = None
              \<and> password u = hashPassword env (reg_password body)
              \<and> (hashPassword env (reg_password body) \<noteq> reg_password body
                   \<longrightarrow> password u \<noteq> reg_password body)"
    by (simp add: run)
  fix pw
  have "\<exists>u \<in> set (users (snd (registerUsers env body s))).
          email u = reg_email \<lparr>reg_email = reg_email body, reg_password = pw\<rparr> \<and> deletedAt u = None"
    by (simp add: run)
  from registerUsers_conflict [OF this]
  show "registerUsers env \<lparr>reg_email = reg_email body, reg_password = pw\<rparr>
                  (snd (registerUsers env body s)) =
                (Inl (apiResponse BAD_REQUEST (''Email '' @ reg_email body @ '' already taken'') None),
                 snd (registerUsers env body s))"
    by simp
qed

theorem registerUsers_conflict_and_hash_witness:
  "fst (registerUsers example_pkg \<lparr>reg_email = ''a@x.com'', reg_password = ''pw1''\<rparr> db_empty) =
     Inr (apiResponse OK ''Register new user account success'' None)
 \<and> hashPassword example_pkg ''pw1'' \<noteq> ''pw1''
 \<and> (\<exists>u. users (snd (registerUsers example_pkg \<lparr>reg_email = ''a@x.com'', reg_password = ''pw1''\<rparr> db_empty))
            = users db_empty @ [u]
        \<and> email u = ''a@x.com'' \<and> deletedAt u = None
        \<and> password u = hashPassword example_pkg ''pw1''
        \<and> password u \<noteq> ''pw1'')
 \<and> registerUsers example_pkg \<lparr>reg_email = ''a@x.com'', reg_password = ''pw9''\<rparr>
      (snd (registerUsers example_pkg \<lparr>reg_email = ''a@x.com'', reg_password = ''pw1''\<rparr> db_empty)) =
     (Inl (apiResponse BAD_REQUEST ''Email a@x.com already taken'' None),
      snd (registerUsers example_pkg \<lparr>reg_email = ''a@x.com'', reg_password = ''pw1''\<rparr> db_empty))"
proof -
  have ok: "fst (registerUsers example_pkg \<lparr>reg_email = ''a@x.com'', reg_password = ''pw1''\<rparr> db_empty) =
     Inr (apiResponse OK ''Register new user account success'' None)"
    by code_simp
  have h: "hashPassword example_pkg ''pw1'' \<noteq> ''pw1''" by code_simp
  note t = registerUsers_conflict_and_hash [OF ok]
  from t h have c1: "\<exists>u. users (snd (registerUsers example_pkg \<lparr>reg_email = ''a@x.com'', reg_password = ''pw1''\<rparr> db_empty))
            = users db_empty @ [u]
        \<and> email u = ''a@x.com'' \<and> deletedAt u = None
        \<and> password u = hashPassword example_pkg ''pw1''
        \<and> password u \<noteq> ''pw1''"
    by simp
  from t have c2: "registerUsers example_pkg \<lparr>reg_email = ''a@x.com'', reg_password = ''pw9''\<rparr>
      (snd (registerUsers example_pkg \<lparr>reg_email = ''a@x.com'', reg_password = ''pw1''\<rparr> db_empty)) =
     (Inl (apiResponse BAD_REQUEST ''Email a@x.com already taken'' None),
      snd (registerUsers example_pkg \<lparr>reg_email = ''a@x.com'', reg_password = ''pw1''\<rparr> db_empty))"
    by simp
  from ok h c1 c2 show ?thesis by blast
qed

subsection \<open>C6\<close>

text \<open>
  Claim C6. If \<^verbatim>\<open>refreshTokenUsers\<close> resolves on a well-formed store, the database after the
  call is the database before it with one secret, at one position \<open>i\<close>, given the returned
  access token and the returned expiry: its \<^verbatim>\<open>_id\<close>, \<^verbatim>\<open>refreshToken\<close>,
  \<^verbatim>\<open>resourceType\<close> and \<^verbatim>\<open>resourceBy\<close> keep their values, every other secret, the users
  and the roles are unchanged. That secret is one matching the request (its access token,
  type "login").
\<close>

theorem refreshTokenUsers_in_place:
  assumes wf: "wf_db s"
    and ok: "fst (refreshTokenUsers env body now s) = Inr resp"
  shows "\<exists>i tok e role.
           i < length (secrets s)
         \<and> accessToken (secrets s ! i) = body_accessToken body
         \<and> resourceType (secrets s ! i) = ''login''
         \<and> resp = apiResponse OK ''Refresh accessToken success'' (Some (TokenRes tok e role))
         \<and> snd (refreshTokenUsers env body now s) =
             s\<lparr>secrets := (secrets s)[i := (secrets s ! i)\<lparr>accessToken := tok, expiredAt := e\<rparr>]\<rparr>"
proof -
  from refreshTokenUsers_resolved [OF ok] obtain r u role where
    found: "findOne_sort_desc
             (\<lambda>x. accessToken x = body_accessToken body \<and> resourceType x = ''login'') (secrets s) = Some r"
    and exp: "expiredAt r \<le> now"
    and usr: "findOne (\<lambda>u. user_id u = resourceBy r \<and> deletedAt u = None) (users s) = Some u"
    and rol: "populate (roles s) u = Some role"
    by blast
  let ?tok = "refreshToken_jwt env \<lparr>jwt_id = user_id u, jwt_email = email u, jwt_role = name role\<rparr> now"
  let ?e = "now + 86400000"
  note run = refreshTokenUsers_success [OF found exp usr rol, of env]
  note p = findOne_sort_desc_Some [OF found]
  have same: "user_id u = resourceBy r" using findOne_Some [OF usr] by simp
  have upd: "r\<lparr>accessToken := ?tok, resourceType := ''login'', resourceBy := user_id u, expiredAt := ?e\<rparr>
           = r\<lparr>accessToken := ?tok, expiredAt := ?e\<rparr>"
    using same p(2) by simp
  from wf have "distinct (map secret_id (secrets s))" by (simp add: wf_db_def)
  from findByIdAndUpdate_nth [OF p(1) this, of ?tok "''login''" "user_id u" ?e]
  obtain i where i: "i < length (secrets s)" "secrets s ! i = r"
    "findByIdAndUpdate (secret_id r) ?tok ''login'' (user_id u) ?e (secrets s)
       = (secrets s)[i := r\<lparr>accessToken := ?tok, expiredAt := ?e\<rparr>]"
    using upd by auto
  have "resp = apiResponse OK ''Refresh accessToken success'' (Some (TokenRes ?tok ?e (name role)))"
    using ok run by simp
  moreover have "snd (refreshTokenUsers env body now s) =
             s\<lparr>secrets := (secrets s)[i := (secrets s ! i)\<lparr>accessToken := ?tok, expiredAt := ?e\<rparr>]\<rparr>"
    using run i by simp
  moreover have "accessToken (secrets s ! i) = body_accessToken body" "resourceType (secrets s ! i) = ''login''"
    using p(2) i(2) by simp_all
  ultimately show ?thesis using i(1) by blast
qed

theorem refreshTokenUsers_in_place_witness:
  "wf_db db_login2
 \<and> fst (refreshTokenUsers example_pkg \<lparr>body_accessToken = ''access:a@x.com/''\<rparr> 86400002 db_login2) =
     Inr (apiResponse OK ''Refresh accessToken success''
           (Some (TokenRes ''renewed:a@x.com'' 172800002 ''user'')))
 \<and> (\<exists>i tok e role.
       i < length (secrets db_login2)
     \<and> accessToken (secrets db_login2 ! i) = body_accessToken \<lparr>body_accessToken = ''access:a@x.com/''\<rparr>
     \<and> resourceType (secrets db_login2 ! i) = ''login''
     \<and> apiResponse OK ''Refresh accessToken success''
           (Some (TokenRes ''renewed:a@x.com'' 172800002 ''user'')) =
         apiResponse OK ''Refresh accessToken success'' (Some (TokenRes tok e role))
     \<and> snd (refreshTokenUsers example_pkg \<lparr>body_accessToken = ''access:a@x.com/''\<rparr> 86400002 db_login2) =
         db_login2\<lparr>secrets := (secrets db_login2)[i := (secrets db_login2 ! i)\<lparr>accessToken := tok, expiredAt := e\<rparr>]\<rparr>)"
proof -
  have wf: "wf_db db_login2" by code_simp
  have ok: "fst (refreshTokenUsers example_pkg \<lparr>body_accessToken = ''access:a@x.com/''\<rparr> 86400002 db_login2) =
     Inr (apiResponse OK ''Refresh accessToken success''
           (Some (TokenRes ''renewed:a@x.com'' 172800002 ''user'')))"
    by code_simp
  from refreshTokenUsers_in_place [OF wf ok] wf ok show ?thesis by blast
qed

subsection \<open>C7\<close>

text \<open>
  Claim C7. Let \<^verbatim>\<open>refreshTokenUsers\<close> find an expired secret \<open>r\<close> whose subject is absent or
  soft-deleted. Then the lookup of the subject gives \<^verbatim>\<open>null\<close>, reading its \<^verbatim>\<open>_id\<close> throws,
  and the call is rejected (code 400, the engine's message) with the database unchanged.
\<close>

theorem refreshTokenUsers_subject_gone:
  assumes "findOne_sort_desc
             (\<lambda>x. accessToken x = body_accessToken body \<and> resourceType x = ''login'') (secrets s) = Some r"
    and "expiredAt r \<le> now"
    and "\<forall>u \<in> set (users s). user_id u = resourceBy r \<longrightarrow> deletedAt u \<noteq> None"
  shows "refreshTokenUsers env body now s =
           (Inl (apiResponse BAD_REQUEST ''Cannot read properties of null (reading '_id')'' None), s)"
proof -
  have "findOne (\<lambda>u. user_id u = resourceBy r \<and> deletedAt u = None) (users s) = None"
    using assms(3) by (auto simp: findOne_None)
  then show ?thesis
    using assms(1,2)
    by (simp add: refreshTokenUsers_def dateFormat_def try_catch_def catch_reject_def null_property_def)
qed

theorem refreshTokenUsers_subject_gone_witness:
  "findOne_sort_desc
      (\<lambda>x. accessToken x = body_accessToken \<lparr>body_accessToken = ''access:a@x.com/''\<rparr>
           \<and> resourceType x = ''login'') (secrets db_orphan) = Some session1
 \<and> expiredAt session1 \<le> 86400002
 \<and> findOne (\<lambda>u. user_id u = resourceBy session1 \<and> deletedAt u = None) (users db_orphan) = None
 \<and> refreshTokenUsers example_pkg \<lparr>body_accessToken = ''access:a@x.com/''\<rparr> 86400002 db_orphan =
     (Inl (apiResponse BAD_REQUEST ''Cannot read properties of null (reading '_id')'' None), db_orphan)"
proof -
  have f: "findOne_sort_desc
      (\<lambda>x. accessToken x = body_accessToken \<lparr>body_accessToken = ''access:a@x.com/''\<rparr>
           \<and> resourceType x = ''login'') (secrets db_orphan) = Some session1"
    by code_simp
  have e: "expiredAt session1 \<le> 86400002" by code_simp
  have g: "\<forall>u \<in> set (users db_orphan). user_id u = resourceBy session1 \<longrightarrow> deletedAt u \<noteq> None"
    by code_simp
  have n: "findOne (\<lambda>u. user_id u = resourceBy session1 \<and> deletedAt u = None) (users db_orphan) = None"
    by code_simp
  from refreshTokenUsers_subject_gone [OF f e g, of example_pkg] f e n show ?thesis by blast
qed

subsection \<open>C8\<close>

text \<open>
  Claim C8. The claim that a call whose subject id is absent is rejected before any lookup
  does not hold for a body that is present and has no \<^verbatim>\<open>id\<close>: the guard tests the body
  only, the lookup runs, and on an empty collection both operations are rejected with
  "AccessToken is not exist", not with the guard's response.
\<close>

theorem missing_id_counterexample:
  "fst (healthTokenUsers example_pkg (Some \<lparr>body_id = None\<rparr>) 0 db_empty) =
     Inl (apiResponse BAD_REQUEST ''AccessToken is not exist'' None)
 \<and> fst (revokeTokenUsers example_pkg (Some \<lparr>body_id = None\<rparr>) 0 db_empty) =
     Inl (apiResponse BAD_REQUEST ''AccessToken is not exist'' None)
 \<and> apiResponse BAD_REQUEST ''AccessToken is not exist'' None \<noteq>
     apiResponse BAD_REQUEST ''AccessToken expired'' None"
  by code_simp

text \<open>
  Claim C8, as amended. When the body itself is absent, \<^verbatim>\<open>healthTokenUsers\<close> and
  \<^verbatim>\<open>revokeTokenUsers\<close> are rejected with code 400 and "AccessToken expired", whatever the
  database holds, and leave it unchanged.
\<close>

theorem absent_body_rejected:
  "healthTokenUsers env None now s = (Inl (apiResponse BAD_REQUEST ''AccessToken expired'' None), s)
 \<and> revokeTokenUsers env None now s = (Inl (apiResponse BAD_REQUEST ''AccessToken expired'' None), s)"
  by (simp add: healthTokenUsers_def revokeTokenUsers_def try_catch_def catch_thrown)

subsection \<open>C9\<close>

text \<open>
  Claim C9. If \<^verbatim>\<open>revokeTokenUsers\<close> resolves for a subject on a well-formed store, it has
  removed exactly one secret, the subject's most recently inserted one (largest \<^verbatim>\<open>_id\<close>):
  the secrets after the call are those before it without that record, in the same order, the
  collection and the subject's records are each one fewer, and users and roles are unchanged.
\<close>

theorem revokeTokenUsers_deletes_latest:
  assumes wf: "wf_db s"
    and ok: "fst (revokeTokenUsers env (Some \<lparr>body_id = Some sid\<rparr>) now s) = Inr resp"
  shows "\<exists>r. latest_for sid s r
           \<and> snd (revokeTokenUsers env (Some \<lparr>body_id = Some sid\<rparr>) now s) =
               s\<lparr>secrets := remove1 r (secrets s)\<rparr>
           \<and> set (secrets (snd (revokeTokenUsers env (Some \<lparr>body_id = Some sid\<rparr>) now s))) =
               set (secrets s) - {r}
           \<and> length (secrets s) =
               Suc (length (secrets (snd (revokeTokenUsers env (Some \<lparr>body_id = Some sid\<rparr>) now s))))
           \<and> length (sessions_of sid s) =
               Suc (length (sessions_of sid (snd (revokeTokenUsers env (Some \<lparr>body_id = Some sid\<rparr>) now s))))"
proof -
  from revokeTokenUsers_resolved [OF wf ok] obtain r where
    l: "latest_for sid s r"
    and run: "revokeTokenUsers env (Some \<lparr>body_id = Some sid\<rparr>) now s =
               (Inr (apiResponse OK ''Revoke accessToken success'' None),
                s\<lparr>secrets := remove1 r (secrets s)\<rparr>)"
    by blast
  have mem: "r \<in> set (secrets s)" and by_sid: "resourceBy r = sid"
    using l by (simp_all add: latest_for_def)
  have s': "snd (revokeTokenUsers env (Some \<lparr>body_id = Some sid\<rparr>) now s) =
              s\<lparr>secrets := remove1 r (secrets s)\<rparr>"
    by (simp add: run)
  have d: "distinct (secrets s)" using wf by (simp add: wf_db_def distinct_map)
  have c1: "set (remove1 r (secrets s)) = set (secrets s) - {r}"
    using d by simp
  have c2: "length (secrets s) = Suc (length (remove1 r (secrets s)))"
    using mem by (rule length_remove1_Suc)
  have f: "filter (\<lambda>x. resourceBy x = sid) (remove1 r (secrets s))
             = remove1 r (filter (\<lambda>x. resourceBy x = sid) (secrets s))"
    using by_sid by (simp add: filter_remove1)
  have "r \<in> set (filter (\<lambda>x. resourceBy x = sid) (secrets s))"
    using mem by_sid by simp
  then have c3: "length (filter (\<lambda>x. resourceBy x = sid) (secrets s))
               = Suc (length (remove1 r (filter (\<lambda>x. resourceBy x = sid) (secrets s))))"
    by (rule length_remove1_Suc)
  have "latest_for sid s r
           \<and> snd (revokeTokenUsers env (Some \<lparr>body_id = Some sid\<rparr>) now s) =
               s\<lparr>secrets := remove1 r (secrets s)\<rparr>
           \<and> set (secrets (snd (revokeTokenUsers env (Some \<lparr>body_id = Some sid\<rparr>) now s))) =
               set (secrets s) - {r}
           \<and> length (secrets s) =
               Suc (length (secrets (snd (revokeTokenUsers env (Some \<lparr>body_id = Some sid\<rparr>) now s))))
           \<and> length (sessions_of sid s) =
               Suc (length (sessions_of sid (snd (revokeTokenUsers env (Some \<lparr>body_id = Some sid\<rparr>) now s))))"
    unfolding s' sessions_of_def using l c1 c2 c3 f by simp
  then show ?thesis ..
qed

theorem revokeTokenUsers_deletes_latest_witness:
  "wf_db db_login2
 \<and> fst (revokeTokenUsers example_pkg (Some \<lparr>body_id = Some 1\<rparr>) 2 db_login2) =
     Inr (apiResponse OK ''Revoke accessToken success'' None)
 \<and> (\<exists>r. latest_for 1 db_login2 r
       \<and> snd (revokeTokenUsers example_pkg (Some \<lparr>body_id = Some 1\<rparr>) 2 db_login2) =
           db_login2\<lparr>secrets := remove1 r (secrets db_login2)\<rparr>
       \<and> set (secrets (snd (revokeTokenUsers example_pkg (Some \<lparr>body_id = Some 1\<rparr>) 2 db_login2))) =
           set (secrets db_login2) - {r}
       \<and> length (secrets db_login2) =
           Suc (length (secrets (snd (revokeTokenUsers example_pkg (Some \<lparr>body_id = Some 1\<rparr>) 2 db_login2))))
       \<and> length (sessions_of 1 db_login2) =
           Suc (length (sessions_of 1 (snd (revokeTokenUsers example_pkg (Some \<lparr>body_id = Some 1\<rparr>) 2 db_login2)))))
 \<and> snd (revokeTokenUsers example_pkg (Some \<lparr>body_id = Some 1\<rparr>) 2 db_login2) = db_login1"
proof -
  have wf: "wf_db db_login2" by code_simp
  have ok: "fst (revokeTokenUsers example_pkg (Some \<lparr>body_id = Some 1\<rparr>) 2 db_login2) =
     Inr (apiResponse OK ''Revoke accessToken success'' None)"
    by code_simp
  have v: "snd (revokeTokenUsers example_pkg (Some \<lparr>body_id = Some 1\<rparr>) 2 db_login2) = db_login1"
    by code_simp
  from revokeTokenUsers_deletes_latest [OF wf ok] wf ok v show ?thesis by blast
qed

subsection \<open>C10\<close>

text \<open>
  Claim C10. \<^verbatim>\<open>healthTokenUsers\<close> writes nothing: for every body, time and database, resolved
  or rejected, the database after the call is the database before it.
\<close>

theorem healthTokenUsers_no_write:
  "snd (healthTokenUsers env body now s) = s"
  by (simp add: healthTokenUsers_def try_catch_def split: option.splits)

end
